theory Spec2Isabelle
  imports Main
begin

section \<open>Search session state\<close>

text \<open>
  The state value held by the session state container (type \<open>SearchSessionState\<close> of
  \<^verbatim>\<open>search_session_state.ts\<close>): the id of the current session, absent when there is
  none, the two flags, and the descriptors of the searches in flight.
\<close>

record 'd search_session_state =
  sessionId :: "string option"
  isStored :: bool
  isRestore :: bool
  pendingSearches :: "'d list"

text \<open>
  Modelled from the spec: the state container (\<^verbatim>\<open>createSessionStateContainer\<close> and its
  transitions, module \<^verbatim>\<open>./search_session_state\<close>) is imported by the service but its source
  is missing. The empty state and the seven transitions below follow sections 3 and 4.1
  of the specification: \<open>pendingSearches\<close> is a set, kept here as a list without
  repetitions in the order of insertion, which is the order in which \<open>forEach\<close> visits
  it; \<open>start\<close> installs a freshly generated
  id (the generated id is the argument) and resets everything else; \<open>restore\<close> does the
  same with the given id and marks the session as restored; \<open>trackSearch\<close> without a
  session is a no-op; \<open>unTrackSearch\<close> removes; \<open>store\<close> marks the current session as
  stored and is a no-op without a session; \<open>cancel\<close> and \<open>clear\<close> are the full reset.
\<close>

definition createSessionDefaultState :: "'d search_session_state" where
  "createSessionDefaultState =
     \<lparr>sessionId = None, isStored = False, isRestore = False, pendingSearches = []\<rparr>"

definition transitions_start :: "string \<Rightarrow> 'd search_session_state \<Rightarrow> 'd search_session_state" where
  "transitions_start newId s = createSessionDefaultState\<lparr>sessionId := Some newId\<rparr>"

definition transitions_restore :: "string \<Rightarrow> 'd search_session_state \<Rightarrow> 'd search_session_state" where
  "transitions_restore sid s =
     createSessionDefaultState\<lparr>sessionId := Some sid, isRestore := True\<rparr>"

definition transitions_trackSearch :: "'d \<Rightarrow> 'd search_session_state \<Rightarrow> 'd search_session_state" where
  "transitions_trackSearch d s =
     (if sessionId s = None then s
      else if d \<in> set (pendingSearches s) then s
      else s\<lparr>pendingSearches := pendingSearches s @ [d]\<rparr>)"

definition transitions_unTrackSearch :: "'d \<Rightarrow> 'd search_session_state \<Rightarrow> 'd search_session_state" where
  "transitions_unTrackSearch d s = s\<lparr>pendingSearches := removeAll d (pendingSearches s)\<rparr>"

definition transitions_store :: "'d search_session_state \<Rightarrow> 'd search_session_state" where
  "transitions_store s = (if sessionId s = None then s else s\<lparr>isStored := True\<rparr>)"

definition transitions_cancel :: "'d search_session_state \<Rightarrow> 'd search_session_state" where
  "transitions_cancel s = createSessionDefaultState"

definition transitions_clear :: "'d search_session_state \<Rightarrow> 'd search_session_state" where
  "transitions_clear s = createSessionDefaultState"

section \<open>Collaborators\<close>

text \<open>A JavaScript \<open>Error\<close> with its message, and the way a promise settles.\<close>

datatype error = Error string

datatype 'a settled = Resolved 'a | Rejected error

text \<open>
  \<open>TrackSearchDescriptor\<close>: an object with an \<open>abort\<close> method. \<open>ident\<close> stands for the
  identity of the object; \<open>abort\<close> is what a call of the method does: it returns
  (\<open>None\<close>) or throws.
\<close>

record 'd TrackSearchDescriptor =
  ident :: 'd
  abort :: "error option"

text \<open>
  \<open>SearchSessionInfoProvider\<close>: the provider is represented by what the promises of its
  two methods settle to and, for the case that both reject, by which of them does so
  first. \<open>'st\<close> is the type of the url generator state blobs.
\<close>

record 'st url_generator_data =
  urlGeneratorId :: string
  initialState :: 'st
  restoreState :: 'st

record 'st search_session_info_provider =
  getName :: "string settled"
  getUrlGeneratorData :: "'st url_generator_data settled"
  getName_settles_first :: bool

text \<open>The object literal passed to \<open>sessionsClient.create\<close> by \<open>save\<close>.\<close>

record 'st create_args = "'st url_generator_data" +
  name :: string
  appId :: "string option"
  sessionId_arg :: string

text \<open>
  Calls received by the persistence client. \<open>delete\<close> is called with
  \<open>this.state.get().sessionId!\<close>, which at run time is a string or \<open>undefined\<close>.
\<close>

datatype 'st client_call = Create "'st create_args" | Delete "string option"

datatype provider_call = GetName | GetUrlGeneratorData

section \<open>The session service\<close>

text \<open>
  The fields of class \<open>SessionService\<close> (\<open>state\<close> is the value \<open>this.state.get()\<close>;
  \<open>dev\<close> is \<open>initializerContext.env.mode.dev\<close>), followed by what the collaborators have
  observed so far: how often the \<open>abort\<close> of each descriptor was invoked, the calls on the
  persistence client and on the info provider in order, the console warnings, the
  callbacks handed to \<open>setTimeout\<close> and not yet run (delay and the message each will
  report) and the messages added to \<open>coreStart.fatalErrors\<close>.
\<close>

record ('d, 'st) session_service =
  state :: "'d TrackSearchDescriptor search_session_state"
  searchSessionInfoProvider :: "'st search_session_info_provider option"
  curApp :: "string option"
  dev :: bool
  aborts :: "'d TrackSearchDescriptor \<Rightarrow> nat"
  sessionsClient_calls :: "'st client_call list"
  provider_calls :: "provider_call list"
  console_warn :: "string list"
  timeouts :: "(nat \<times> string) list"
  fatalErrors :: "string list"

text \<open>
  JavaScript truthiness of a \<open>string | undefined\<close>: \<open>undefined\<close> and the empty string are
  falsy. The tests \<open>!sessionId\<close>, \<open>!this.curApp\<close> and \<open>if (this.state.get().sessionId)\<close>
  use it.
\<close>

definition truthy :: "string option \<Rightarrow> bool" where
  "truthy v = (case v of None \<Rightarrow> False | Some s \<Rightarrow> s \<noteq> [])"

text \<open>A \<open>string | undefined\<close> inside a template literal.\<close>

definition template_string :: "string option \<Rightarrow> string" where
  "template_string v = (case v of None \<Rightarrow> ''undefined'' | Some s \<Rightarrow> s)"

definition open_session_message :: "string option \<Rightarrow> string" where
  "open_session_message app =
     ''Application '' @ [CHR 0x27] @ template_string app @ [CHR 0x27] @
     '' had an open session while navigating''"

text \<open>The service as the constructor leaves it.\<close>

definition new_service :: "bool \<Rightarrow> ('d, 'st) session_service" where
  "new_service devMode =
     \<lparr>state = createSessionDefaultState, searchSessionInfoProvider = None, curApp = None,
      dev = devMode, aborts = (\<lambda>d. 0), sessionsClient_calls = [], provider_calls = [],
      console_warn = [], timeouts = [], fatalErrors = []\<rparr>"

definition setSearchSessionInfoProvider ::
  "'st search_session_info_provider option \<Rightarrow> ('d, 'st) session_service \<Rightarrow> ('d, 'st) session_service" where
  "setSearchSessionInfoProvider p sv = sv\<lparr>searchSessionInfoProvider := p\<rparr>"

text \<open>
  \<open>trackSearch\<close> dispatches the transition and returns the untrack closure, which
  captures the descriptor and acts on the service as it is when the closure is invoked.
\<close>

definition unTrackSearch :: "'d TrackSearchDescriptor \<Rightarrow> ('d, 'st) session_service \<Rightarrow> ('d, 'st) session_service" where
  "unTrackSearch d sv = sv\<lparr>state := transitions_unTrackSearch d (state sv)\<rparr>"

definition trackSearch ::
  "'d TrackSearchDescriptor \<Rightarrow> ('d, 'st) session_service \<Rightarrow>
     (('d, 'st) session_service \<Rightarrow> ('d, 'st) session_service) \<times> ('d, 'st) session_service" where
  "trackSearch d sv = (unTrackSearch d, sv\<lparr>state := transitions_trackSearch d (state sv)\<rparr>)"

definition getSessionId :: "('d, 'st) session_service \<Rightarrow> string option" where
  "getSessionId sv = sessionId (state sv)"

definition start :: "string \<Rightarrow> ('d, 'st) session_service \<Rightarrow> string option \<times> ('d, 'st) session_service" where
  "start newId sv =
     (let sv' = sv\<lparr>state := transitions_start newId (state sv)\<rparr> in (getSessionId sv', sv'))"

definition restore :: "string \<Rightarrow> ('d, 'st) session_service \<Rightarrow> ('d, 'st) session_service" where
  "restore sid sv = sv\<lparr>state := transitions_restore sid (state sv)\<rparr>"

definition clear :: "('d, 'st) session_service \<Rightarrow> ('d, 'st) session_service" where
  "clear sv = setSearchSessionInfoProvider None (sv\<lparr>state := transitions_clear (state sv)\<rparr>)"

text \<open>
  The subscriber of \<open>currentAppId$\<close>. In a development build the report is a callback
  scheduled 100 ms later; otherwise the message goes to the console and the session is
  cleared. \<open>curApp\<close> is assigned last, on every event.
\<close>

definition app_change :: "string option \<Rightarrow> ('d, 'st) session_service \<Rightarrow> ('d, 'st) session_service" where
  "app_change appName sv =
     (let sv1 =
        (if truthy (sessionId (state sv)) then
           (let message = open_session_message (curApp sv) in
            if dev sv then sv\<lparr>timeouts := timeouts sv @ [(100, message)]\<rparr>
            else clear (sv\<lparr>console_warn := console_warn sv @ [message]\<rparr>))
         else sv)
      in sv1\<lparr>curApp := appName\<rparr>)"

text \<open>The oldest scheduled callback runs: \<open>coreStart.fatalErrors.add(message)\<close>.\<close>

definition run_timeout :: "('d, 'st) session_service \<Rightarrow> ('d, 'st) session_service" where
  "run_timeout sv =
     (case timeouts sv of
        [] \<Rightarrow> sv
      | (delay, message) # rest \<Rightarrow>
          sv\<lparr>timeouts := rest, fatalErrors := fatalErrors sv @ [message]\<rparr>)"

text \<open>
  The loop \<open>pendingSearches.forEach((s) => { s.abort(); })\<close>. Each call of \<open>abort\<close> is
  counted; there is no \<open>try\<close> around it, so the first \<open>abort\<close> that throws ends the loop
  and the error goes on to the caller.
\<close>

fun forEach_abort ::
  "'d TrackSearchDescriptor list \<Rightarrow> ('d, 'st) session_service \<Rightarrow>
     error option \<times> ('d, 'st) session_service" where
  "forEach_abort [] sv = (None, sv)"
| "forEach_abort (s # ss) sv =
     (let sv1 = sv\<lparr>aborts := (aborts sv)(s := aborts sv s + 1)\<rparr> in
      case abort s of
        Some e \<Rightarrow> (Some e, sv1)
      | None \<Rightarrow> forEach_abort ss sv1)"

text \<open>
  \<open>cancel\<close> up to its only \<open>await\<close>, with the container's cancel transition as the
  argument \<open>transition\<close>. The stored flag is read first and the pending searches are
  aborted. If an \<open>abort\<close> throws, the promise of \<open>cancel\<close> is rejected and nothing else
  happens. Otherwise the transition is dispatched and then, for a stored session,
  \<open>delete\<close> is called with the session id read from the state at that moment. The result
  is the rejection, if any, and the service when \<open>cancel\<close> suspends or ends.
\<close>

definition cancel_with ::
  "('d TrackSearchDescriptor search_session_state \<Rightarrow> 'd TrackSearchDescriptor search_session_state) \<Rightarrow>
     ('d, 'st) session_service \<Rightarrow> (error + unit) \<times> ('d, 'st) session_service" where
  "cancel_with transition sv =
     (let isStoredSession = isStored (state sv) in
      case forEach_abort (pendingSearches (state sv)) sv of
        (Some e, sv1) \<Rightarrow> (Inl e, sv1)
      | (None, sv1) \<Rightarrow>
          (let sv2 = sv1\<lparr>state := transition (state sv1)\<rparr> in
           (Inr (),
            if isStoredSession
            then sv2\<lparr>sessionsClient_calls :=
                       sessionsClient_calls sv2 @ [Delete (sessionId (state sv2))]\<rparr>
            else sv2)))"

text \<open>
  The service after \<open>cancel\<close>, with the cancel transition as the specification
  describes it.
\<close>

definition cancel :: "('d, 'st) session_service \<Rightarrow> ('d, 'st) session_service" where
  "cancel sv = snd (cancel_with transitions_cancel sv)"

subsection \<open>save\<close>

text \<open>
  \<open>save\<close> is an async function with two suspension points, so it runs in three parts.
  \<open>save_begin\<close> is the part before the first \<open>await\<close>: the three precondition checks in
  the order of the source, then both provider methods are called. It returns the
  captured session id and provider, or the error the returned promise is rejected with.
\<close>

definition save_begin ::
  "('d, 'st) session_service \<Rightarrow>
     (error + string \<times> 'st search_session_info_provider) \<times> ('d, 'st) session_service" where
  "save_begin sv =
     (case sessionId (state sv) of
        None \<Rightarrow> (Inl (Error ''No current session''), sv)
      | Some sid \<Rightarrow>
          if sid = [] then (Inl (Error ''No current session''), sv)
          else if \<not> truthy (curApp sv) then (Inl (Error ''No current app id''), sv)
          else (case searchSessionInfoProvider sv of
                  None \<Rightarrow> (Inl (Error ''No info provider for current session''), sv)
                | Some p \<Rightarrow>
                    (Inr (sid, p),
                     sv\<lparr>provider_calls := provider_calls sv @ [GetName, GetUrlGeneratorData]\<rparr>)))"

text \<open>
  \<open>Promise.all\<close> of two promises. It resolves when both do and is rejected by the first
  rejection in time: when both promises reject, \<open>first_settles_first\<close> tells whose
  rejection that is.
\<close>

definition promise_all :: "bool \<Rightarrow> 'a settled \<Rightarrow> 'b settled \<Rightarrow> ('a \<times> 'b) settled" where
  "promise_all first_settles_first a b =
     (case (a, b) of
        (Resolved x, Resolved y) \<Rightarrow> Resolved (x, y)
      | (Rejected e, Resolved y) \<Rightarrow> Rejected e
      | (Resolved x, Rejected e) \<Rightarrow> Rejected e
      | (Rejected e1, Rejected e2) \<Rightarrow> Rejected (if first_settles_first then e1 else e2))"

text \<open>
  The part between the two \<open>await\<close>s, run on the service as it is when the provider
  promises have settled: \<open>create\<close> is called with \<open>this.curApp\<close> as it is then and with
  the captured session id.
\<close>

definition save_after_provider ::
  "string \<Rightarrow> 'st search_session_info_provider \<Rightarrow> ('d, 'st) session_service \<Rightarrow>
     (error + unit) \<times> ('d, 'st) session_service" where
  "save_after_provider sid p sv =
     (case promise_all (getName_settles_first p) (getName p) (getUrlGeneratorData p) of
        Rejected e \<Rightarrow> (Inl e, sv)
      | Resolved (n, dat) \<Rightarrow>
          (Inr (),
           sv\<lparr>sessionsClient_calls := sessionsClient_calls sv @
                 [Create \<lparr>urlGeneratorId = urlGeneratorId dat, initialState = initialState dat,
                          restoreState = restoreState dat, name = n, appId = curApp sv,
                          sessionId_arg = sid\<rparr>]\<rparr>))"

text \<open>
  The part after \<open>await this.sessionsClient.create(...)\<close>, run on the service as it is
  when \<open>create\<close> has settled.
\<close>

definition save_after_create ::
  "unit settled \<Rightarrow> string \<Rightarrow> ('d, 'st) session_service \<Rightarrow>
     (error + unit) \<times> ('d, 'st) session_service" where
  "save_after_create created sid sv =
     (case created of
        Rejected e \<Rightarrow> (Inl e, sv)
      | Resolved u \<Rightarrow>
          (Inr (),
           if getSessionId sv = Some sid then sv\<lparr>state := transitions_store (state sv)\<rparr>
           else sv))"

text \<open>
  What else the event loop may run on the service while \<open>save\<close> is suspended: calls of
  the public methods, invocations of untrack closures, application-change events and
  timer callbacks.
\<close>

datatype ('d, 'st) action =
    Start string
  | Restore string
  | Clear
  | Cancel
  | TrackSearch "'d TrackSearchDescriptor"
  | UnTrackSearch "'d TrackSearchDescriptor"
  | SetSearchSessionInfoProvider "'st search_session_info_provider option"
  | AppChange "string option"
  | RunTimeout

fun perform :: "('d, 'st) action \<Rightarrow> ('d, 'st) session_service \<Rightarrow> ('d, 'st) session_service" where
  "perform (Start newId) sv = snd (start newId sv)"
| "perform (Restore sid) sv = restore sid sv"
| "perform Clear sv = clear sv"
| "perform Cancel sv = cancel sv"
| "perform (TrackSearch d) sv = snd (trackSearch d sv)"
| "perform (UnTrackSearch d) sv = unTrackSearch d sv"
| "perform (SetSearchSessionInfoProvider p) sv = setSearchSessionInfoProvider p sv"
| "perform (AppChange appName) sv = app_change appName sv"
| "perform RunTimeout sv = run_timeout sv"

text \<open>
  A complete run of \<open>save\<close>: \<open>during_provider\<close> happens while the provider promises are
  pending, \<open>created\<close> is how the promise of \<open>create\<close> settles, \<open>during_create\<close> happens
  while it is pending. The result is how the promise of \<open>save\<close> settles and the service
  at that moment.
\<close>

definition save ::
  "('d, 'st) action list \<Rightarrow> unit settled \<Rightarrow> ('d, 'st) action list \<Rightarrow>
     ('d, 'st) session_service \<Rightarrow> (error + unit) \<times> ('d, 'st) session_service" where
  "save during_provider created during_create sv =
     (case save_begin sv of
        (Inl e, sv1) \<Rightarrow> (Inl e, sv1)
      | (Inr (sid, p), sv1) \<Rightarrow>
          (case save_after_provider sid p (fold perform during_provider sv1) of
             (Inl e, sv2) \<Rightarrow> (Inl e, sv2)
           | (Inr u, sv2) \<Rightarrow> save_after_create created sid (fold perform during_create sv2)))"

section \<open>The session id stream\<close>

text \<open>
  Modelled from the spec: the container's \<open>state$\<close> belongs to the missing module too.
  By section 4.1 every transition publishes the resulting state, in transition order.
  \<open>dispatch\<close> names the seven transitions, and \<open>state_stream s ts\<close> is what \<open>state$\<close>
  emits while the transitions \<open>ts\<close> are dispatched from state \<open>s\<close>.
\<close>

datatype 'd transition =
    T_start string
  | T_restore string
  | T_trackSearch 'd
  | T_unTrackSearch 'd
  | T_store
  | T_cancel
  | T_clear

fun dispatch :: "'d transition \<Rightarrow> 'd search_session_state \<Rightarrow> 'd search_session_state" where
  "dispatch (T_start newId) s = transitions_start newId s"
| "dispatch (T_restore sid) s = transitions_restore sid s"
| "dispatch (T_trackSearch d) s = transitions_trackSearch d s"
| "dispatch (T_unTrackSearch d) s = transitions_unTrackSearch d s"
| "dispatch T_store s = transitions_store s"
| "dispatch T_cancel s = transitions_cancel s"
| "dispatch T_clear s = transitions_clear s"

fun state_stream :: "'d search_session_state \<Rightarrow> 'd transition list \<Rightarrow> 'd search_session_state list" where
  "state_stream s [] = []"
| "state_stream s (t # ts) = dispatch t s # state_stream (dispatch t s) ts"

text \<open>
  The two rxjs operators of \<open>getSession$\<close>, on the finite sequence of values a stream
  has emitted. \<open>distinctUntilChanged\<close> keeps the key of the last value it let through
  (none before the first value) and drops a value equal to that key.
\<close>

definition startWith :: "'a \<Rightarrow> 'a list \<Rightarrow> 'a list" where
  "startWith v vs = v # vs"

fun distinctUntilChanged_from :: "'a option \<Rightarrow> 'a list \<Rightarrow> 'a list" where
  "distinctUntilChanged_from key [] = []"
| "distinctUntilChanged_from key (v # vs) =
     (if key = Some v then distinctUntilChanged_from key vs
      else v # distinctUntilChanged_from (Some v) vs)"

definition distinctUntilChanged :: "'a list \<Rightarrow> 'a list" where
  "distinctUntilChanged vs = distinctUntilChanged_from None vs"

text \<open>
  \<open>getSession$()\<close> called and subscribed to in state \<open>s\<close>: what the subscriber receives
  while the transitions \<open>ts\<close> are dispatched.
\<close>

definition getSession_stream :: "'d search_session_state \<Rightarrow> 'd transition list \<Rightarrow> string option list" where
  "getSession_stream s ts =
     distinctUntilChanged (map sessionId (startWith s (state_stream s ts)))"

section \<open>Example services\<close>

text \<open>
  A provider that names the session \<open>N\<close>, and a service (of a development build or
  not) in application \<open>discover\<close> on which session \<open>S1\<close> was started and that
  provider registered.
\<close>

definition demo_provider :: "string search_session_info_provider" where
  "demo_provider =
     \<lparr>getName = Resolved ''N'',
      getUrlGeneratorData =
        Resolved \<lparr>urlGeneratorId = ''G'', initialState = ''{a:1}'', restoreState = ''{a:2}''\<rparr>,
      getName_settles_first = True\<rparr>"

definition demo_service :: "bool \<Rightarrow> (nat, string) session_service" where
  "demo_service devMode =
     setSearchSessionInfoProvider (Some demo_provider)
       (snd (start ''S1'' (app_change (Some ''discover'') (new_service devMode))))"






lemmas demo_defs =
  demo_service_def demo_provider_def new_service_def app_change_def start_def
  setSearchSessionInfoProvider_def getSessionId_def truthy_def
  createSessionDefaultState_def transitions_start_def

section \<open>Precondition failures of save\<close>

lemma save_begin_no_session:
  "\<not> truthy (sessionId (state sv)) \<Longrightarrow> save_begin sv = (Inl (Error ''No current session''), sv)"
  by (simp add: save_begin_def truthy_def split: option.splits)

lemma save_begin_no_app:
  "truthy (sessionId (state sv)) \<Longrightarrow> \<not> truthy (curApp sv) \<Longrightarrow>
     save_begin sv = (Inl (Error ''No current app id''), sv)"
  by (simp add: save_begin_def truthy_def split: option.splits)

lemma save_begin_no_provider:
  "truthy (sessionId (state sv)) \<Longrightarrow> truthy (curApp sv) \<Longrightarrow> searchSessionInfoProvider sv = None \<Longrightarrow>
     save_begin sv = (Inl (Error ''No info provider for current session''), sv)"
  by (simp add: save_begin_def truthy_def split: option.splits)

lemma save_of_failed_begin:
  "save_begin sv = (Inl e, sv') \<Longrightarrow> save env1 created env2 sv = (Inl e, sv')"
  by (simp add: save_def)

section \<open>Facts about the examples\<close>

lemma demo_service_fields:
  "state (demo_service b) =
     \<lparr>sessionId = Some ''S1'', isStored = False, isRestore = False, pendingSearches = []\<rparr>"
  "searchSessionInfoProvider (demo_service b) = Some demo_provider"
  "curApp (demo_service b) = Some ''discover''"
  "dev (demo_service b) = b"
  "sessionsClient_calls (demo_service b) = []"
  "provider_calls (demo_service b) = []"
  "console_warn (demo_service b) = []"
  "timeouts (demo_service b) = []"
  "fatalErrors (demo_service b) = []"
  "aborts (demo_service b) d = 0"
  by (simp_all add: demo_defs)

text \<open>
  C3. When \<open>save\<close> is called without a current session, without a current application
  id or without a registered info provider, the part of \<open>save\<close> that runs before its
  first suspension already fails, the promise of \<open>save\<close> is rejected with that error
  whatever happens later, and the service is left exactly as it was: no provider method
  and no persistence method has been called. The checks run in that order, and the three
  errors are pairwise different.
\<close>

theorem save_precondition_failure:
  assumes "\<not> truthy (sessionId (state sv)) \<or> \<not> truthy (curApp sv) \<or>
           searchSessionInfoProvider sv = None"
  shows "\<exists>e. save_begin sv = (Inl e, sv) \<and>
             save during_provider created during_create sv = (Inl e, sv) \<and>
             e = (if \<not> truthy (sessionId (state sv)) then Error ''No current session''
                  else if \<not> truthy (curApp sv) then Error ''No current app id''
                  else Error ''No info provider for current session'') \<and>
             distinct [Error ''No current session'', Error ''No current app id'',
                       Error ''No info provider for current session'']"
proof (cases "truthy (sessionId (state sv))")
  case False
  then show ?thesis
    by (simp add: save_begin_no_session save_of_failed_begin)
next
  case session: True
  show ?thesis
  proof (cases "truthy (curApp sv)")
    case False
    with session show ?thesis
      by (simp add: save_begin_no_app save_of_failed_begin)
  next
    case True
    with session assms have "searchSessionInfoProvider sv = None"
      by simp
    with session True show ?thesis
      by (simp add: save_begin_no_provider save_of_failed_begin)
  qed
qed

theorem save_precondition_failure_witness:
  "save [] (Resolved ()) [] (new_service False :: (nat, string) session_service) =
     (Inl (Error ''No current session''), new_service False) \<and>
   save [] (Resolved ()) [] (snd (start ''S1'' (new_service False :: (nat, string) session_service))) =
     (Inl (Error ''No current app id''), snd (start ''S1'' (new_service False))) \<and>
   save [] (Resolved ()) [] (setSearchSessionInfoProvider None (demo_service False)) =
     (Inl (Error ''No info provider for current session''),
      setSearchSessionInfoProvider None (demo_service False))"
  using save_precondition_failure
          [of "new_service False :: (nat, string) session_service" "[]" "Resolved ()" "[]"]
        save_precondition_failure
          [of "snd (start ''S1'' (new_service False :: (nat, string) session_service))"
              "[]" "Resolved ()" "[]"]
        save_precondition_failure
          [of "setSearchSessionInfoProvider None (demo_service False)" "[]" "Resolved ()" "[]"]
  by (simp add: demo_defs)

section \<open>The parts of save\<close>

lemma save_begin_ok:
  assumes "sessionId (state sv) = Some sid" "sid \<noteq> []" "truthy (curApp sv)"
    and "searchSessionInfoProvider sv = Some p"
  shows "save_begin sv =
    (Inr (sid, p), sv\<lparr>provider_calls := provider_calls sv @ [GetName, GetUrlGeneratorData]\<rparr>)"
  using assms by (simp add: save_begin_def)

lemma save_begin_InrD:
  assumes "save_begin sv = (Inr (sid, p), sv1)"
  shows "sessionId (state sv) = Some sid" "sid \<noteq> []" "truthy (curApp sv)"
    "searchSessionInfoProvider sv = Some p"
    "sv1 = sv\<lparr>provider_calls := provider_calls sv @ [GetName, GetUrlGeneratorData]\<rparr>"
  using assms by (auto simp: save_begin_def split: option.splits if_splits)

lemma save_of_begin:
  assumes "save_begin sv = (Inr (sid, p), sv1)"
  shows "save during_provider created during_create sv =
    (case save_after_provider sid p (fold perform during_provider sv1) of
       (Inl e, sv2) \<Rightarrow> (Inl e, sv2)
     | (Inr u, sv2) \<Rightarrow> save_after_create created sid (fold perform during_create sv2))"
  using assms by (simp add: save_def)

lemma save_after_provider_resolved:
  assumes "getName p = Resolved n" "getUrlGeneratorData p = Resolved dat"
  shows "save_after_provider sid p sv =
    (Inr (),
     sv\<lparr>sessionsClient_calls := sessionsClient_calls sv @
           [Create \<lparr>urlGeneratorId = urlGeneratorId dat, initialState = initialState dat,
                    restoreState = restoreState dat, name = n, appId = curApp sv,
                    sessionId_arg = sid\<rparr>]\<rparr>)"
  using assms by (simp add: save_after_provider_def promise_all_def)

lemma save_after_create_resolved:
  "save_after_create (Resolved u) sid sv =
     (Inr (),
      if sessionId (state sv) = Some sid then sv\<lparr>state := (state sv)\<lparr>isStored := True\<rparr>\<rparr>
      else sv)"
  by (simp add: save_after_create_def getSessionId_def transitions_store_def)

lemma save_after_create_rejected:
  "save_after_create (Rejected e) sid sv = (Inl e, sv)"
  by (simp add: save_after_create_def)

lemma state_restore_clear:
  "state (restore sid (clear sv)) =
     \<lparr>sessionId = Some sid, isStored = False, isRestore = True, pendingSearches = []\<rparr>"
  by (simp add: restore_def transitions_restore_def createSessionDefaultState_def)

lemma demo_save_begin:
  "save_begin (demo_service b) =
     (Inr (''S1'', demo_provider),
      (demo_service b)\<lparr>provider_calls := [GetName, GetUrlGeneratorData]\<rparr>)"
  using save_begin_ok [of "demo_service b" "''S1''" demo_provider]
  by (simp add: demo_service_fields truthy_def)

lemma demo_provider_resolves:
  "getName demo_provider = Resolved ''N''"
  "getUrlGeneratorData demo_provider =
     Resolved \<lparr>urlGeneratorId = ''G'', initialState = ''{a:1}'', restoreState = ''{a:2}''\<rparr>"
  by (simp_all add: demo_provider_def)

text \<open>
  C2. Take a run of \<open>save\<close> that passes the precondition checks (capturing session id
  \<open>sid\<close>, which is the current id when \<open>save\<close> began) and reaches the call of \<open>create\<close>,
  and let \<open>create\<close> complete. Whatever was done to the service in the meantime, the
  service \<open>sv3\<close> found when \<open>create\<close> completes is marked stored if its session id is
  still \<open>sid\<close>, and is left exactly as found otherwise, so a session that was cleared or
  replaced keeps \<open>isStored = False\<close>.
\<close>

theorem save_stale_write_guard:
  assumes "save_begin sv = (Inr (sid, p), sv1)"
    and "save_after_provider sid p (fold perform during_provider sv1) = (Inr (), sv2)"
    and "sv3 = fold perform during_create sv2"
  shows "sessionId (state sv) = Some sid \<and>
    fst (save during_provider (Resolved ()) during_create sv) = Inr () \<and>
    (sessionId (state sv3) = Some sid \<longrightarrow>
       snd (save during_provider (Resolved ()) during_create sv) =
         sv3\<lparr>state := (state sv3)\<lparr>isStored := True\<rparr>\<rparr>) \<and>
    (sessionId (state sv3) \<noteq> Some sid \<longrightarrow>
       snd (save during_provider (Resolved ()) during_create sv) = sv3 \<and>
       (\<not> isStored (state sv3) \<longrightarrow>
          \<not> isStored (state (snd (save during_provider (Resolved ()) during_create sv)))))"
proof -
  have run: "save during_provider (Resolved ()) during_create sv =
      save_after_create (Resolved ()) sid sv3"
    using assms by (simp add: save_of_begin)
  show ?thesis
    unfolding run save_after_create_resolved
    using save_begin_InrD(1) [OF assms(1)] by simp
qed

theorem save_stale_write_guard_witness:
  "isStored (state (snd (save [] (Resolved ()) [] (demo_service False)))) \<and>
   sessionId (state (snd (save [] (Resolved ()) [] (demo_service False)))) = Some ''S1'' \<and>
   \<not> isStored (state (snd (save [] (Resolved ()) [Clear] (demo_service False)))) \<and>
   sessionId (state (snd (save [] (Resolved ()) [Clear] (demo_service False)))) = None \<and>
   \<not> isStored (state (snd (save [] (Resolved ()) [Start ''S2''] (demo_service False)))) \<and>
   sessionId (state (snd (save [] (Resolved ()) [Start ''S2''] (demo_service False)))) = Some ''S2''"
proof -
  let ?sv1 = "(demo_service False)\<lparr>provider_calls := [GetName, GetUrlGeneratorData]\<rparr>"
  obtain sv2 where
    sv2: "save_after_provider ''S1'' demo_provider (fold perform [] ?sv1) = (Inr (), sv2)"
    and st2: "state sv2 = state (demo_service False)"
    using save_after_provider_resolved [OF demo_provider_resolves, of "''S1''" ?sv1]
    by simp
  show ?thesis
    using save_stale_write_guard [OF demo_save_begin sv2 refl, of "[]"]
      save_stale_write_guard [OF demo_save_begin sv2 refl, of "[Clear]"]
      save_stale_write_guard [OF demo_save_begin sv2 refl, of "[Start ''S2'']"]
    by (simp add: st2 demo_service_fields clear_def start_def getSessionId_def
        setSearchSessionInfoProvider_def transitions_clear_def transitions_start_def
        createSessionDefaultState_def)
qed

text \<open>
  C6. With an active session \<open>sid\<close>, a current application id \<open>app\<close> and a registered
  provider whose promises resolve to the name \<open>n\<close> and the data \<open>dat\<close>, a run of \<open>save\<close>
  during which nothing else touches the service and \<open>create\<close> succeeds first calls both
  provider methods before suspending, then calls \<open>create\<close> once with the name, the
  application id, the initial and restore state, the url generator id and the session
  id, and leaves the session marked stored.
\<close>

theorem save_creates_and_stores:
  assumes "sessionId (state sv) = Some sid" "sid \<noteq> []" "curApp sv = Some app" "app \<noteq> []"
    and "searchSessionInfoProvider sv = Some p"
    and "getName p = Resolved n" "getUrlGeneratorData p = Resolved dat"
  shows "save_begin sv =
      (Inr (sid, p), sv\<lparr>provider_calls := provider_calls sv @ [GetName, GetUrlGeneratorData]\<rparr>) \<and>
    save [] (Resolved ()) [] sv =
      (Inr (),
       sv\<lparr>provider_calls := provider_calls sv @ [GetName, GetUrlGeneratorData],
          sessionsClient_calls := sessionsClient_calls sv @
            [Create \<lparr>urlGeneratorId = urlGeneratorId dat, initialState = initialState dat,
                     restoreState = restoreState dat, name = n, appId = Some app,
                     sessionId_arg = sid\<rparr>],
          state := (state sv)\<lparr>isStored := True\<rparr>\<rparr>) \<and>
    isStored (state (snd (save [] (Resolved ()) [] sv)))"
proof -
  have started: "save_begin sv =
      (Inr (sid, p), sv\<lparr>provider_calls := provider_calls sv @ [GetName, GetUrlGeneratorData]\<rparr>)"
    using assms by (intro save_begin_ok) (simp_all add: truthy_def)
  show ?thesis
    using assms(1,3)
    by (simp add: started save_of_begin [OF started] save_after_provider_resolved [OF assms(6,7)]
        save_after_create_resolved)
qed

theorem save_creates_and_stores_witness:
  "sessionsClient_calls (snd (save [] (Resolved ()) [] (demo_service False))) =
     [Create \<lparr>urlGeneratorId = ''G'', initialState = ''{a:1}'', restoreState = ''{a:2}'',
              name = ''N'', appId = Some ''discover'', sessionId_arg = ''S1''\<rparr>] \<and>
   provider_calls (snd (save [] (Resolved ()) [] (demo_service False))) =
     [GetName, GetUrlGeneratorData] \<and>
   isStored (state (snd (save [] (Resolved ()) [] (demo_service False))))"
  using save_creates_and_stores
    [of "demo_service False" "''S1''" "''discover''" demo_provider "''N''"
        "\<lparr>urlGeneratorId = ''G'', initialState = ''{a:1}'', restoreState = ''{a:2}''\<rparr>"]
  by (simp add: demo_service_fields demo_provider_resolves)

text \<open>
  C10. The check made after \<open>create\<close> looks at the session id and at nothing else.
  Let \<open>save\<close> have begun for session \<open>sid\<close> with a provider whose promises resolve.
  If meanwhile the session is cleared and a session with the same id is restored, be it
  while \<open>create\<close> is pending or while the provider is, the run still completes and leaves
  the restored session marked stored. The part after the provider await calls \<open>create\<close>
  on any service whatever, passing the application id found then, and the part after
  \<open>create\<close> marks any service stored whose session id is \<open>sid\<close>: neither looks at the
  application id or the provider again.
\<close>

theorem save_guard_compares_ids_only:
  fixes sv :: "('d, 'st) session_service"
  assumes "save_begin sv = (Inr (sid, p), sv1)"
    and "getName p = Resolved n" "getUrlGeneratorData p = Resolved dat"
  shows "(\<forall>during_provider during_create.
      fst (save during_provider (Resolved ()) (during_create @ [Clear, Restore sid]) sv) = Inr () \<and>
      state (snd (save during_provider (Resolved ()) (during_create @ [Clear, Restore sid]) sv)) =
        \<lparr>sessionId = Some sid, isStored = True, isRestore = True, pendingSearches = []\<rparr> \<and>
      fst (save (during_provider @ [Clear, Restore sid]) (Resolved ()) [] sv) = Inr () \<and>
      state (snd (save (during_provider @ [Clear, Restore sid]) (Resolved ()) [] sv)) =
        \<lparr>sessionId = Some sid, isStored = True, isRestore = True, pendingSearches = []\<rparr>) \<and>
    (\<forall>sv' :: ('d, 'st) session_service.
      save_after_provider sid p sv' =
        (Inr (),
         sv'\<lparr>sessionsClient_calls := sessionsClient_calls sv' @
               [Create \<lparr>urlGeneratorId = urlGeneratorId dat, initialState = initialState dat,
                        restoreState = restoreState dat, name = n, appId = curApp sv',
                        sessionId_arg = sid\<rparr>]\<rparr>)) \<and>
    (\<forall>sv' :: ('d, 'st) session_service.
      sessionId (state sv') = Some sid \<longrightarrow>
        save_after_create (Resolved ()) sid sv' =
          (Inr (), sv'\<lparr>state := (state sv')\<lparr>isStored := True\<rparr>\<rparr>))"
proof (intro conjI allI impI)
  fix during_provider during_create :: "('d, 'st) action list"
  define a where "a = fold perform during_provider sv1"
  define b where "b = a\<lparr>sessionsClient_calls := sessionsClient_calls a @
      [Create \<lparr>urlGeneratorId = urlGeneratorId dat, initialState = initialState dat,
               restoreState = restoreState dat, name = n, appId = curApp a,
               sessionId_arg = sid\<rparr>]\<rparr>"
  have run1: "save during_provider (Resolved ()) (during_create @ [Clear, Restore sid]) sv =
      save_after_create (Resolved ()) sid (restore sid (clear (fold perform during_create b)))"
    by (simp add: save_of_begin [OF assms(1)] save_after_provider_resolved [OF assms(2,3)]
        a_def b_def)
  show "fst (save during_provider (Resolved ()) (during_create @ [Clear, Restore sid]) sv) = Inr ()"
    unfolding run1 save_after_create_resolved by simp
  show "state (snd (save during_provider (Resolved ()) (during_create @ [Clear, Restore sid]) sv)) =
      \<lparr>sessionId = Some sid, isStored = True, isRestore = True, pendingSearches = []\<rparr>"
    unfolding run1 save_after_create_resolved by (simp add: state_restore_clear)
  define c where "c = restore sid (clear a)"
  have stc: "state c = \<lparr>sessionId = Some sid, isStored = False, isRestore = True,
      pendingSearches = []\<rparr>"
    by (simp add: c_def state_restore_clear)
  have run2: "save (during_provider @ [Clear, Restore sid]) (Resolved ()) [] sv =
      save_after_create (Resolved ()) sid
        (c\<lparr>sessionsClient_calls := sessionsClient_calls c @
             [Create \<lparr>urlGeneratorId = urlGeneratorId dat, initialState = initialState dat,
                      restoreState = restoreState dat, name = n, appId = curApp c,
                      sessionId_arg = sid\<rparr>]\<rparr>)"
    by (simp add: save_of_begin [OF assms(1)] save_after_provider_resolved [OF assms(2,3)]
        a_def c_def)
  show "fst (save (during_provider @ [Clear, Restore sid]) (Resolved ()) [] sv) = Inr ()"
    unfolding run2 save_after_create_resolved by simp
  show "state (snd (save (during_provider @ [Clear, Restore sid]) (Resolved ()) [] sv)) =
      \<lparr>sessionId = Some sid, isStored = True, isRestore = True, pendingSearches = []\<rparr>"
    unfolding run2 save_after_create_resolved by (simp add: stc)
next
  fix sv' :: "('d, 'st) session_service"
  show "save_after_provider sid p sv' =
        (Inr (),
         sv'\<lparr>sessionsClient_calls := sessionsClient_calls sv' @
               [Create \<lparr>urlGeneratorId = urlGeneratorId dat, initialState = initialState dat,
                        restoreState = restoreState dat, name = n, appId = curApp sv',
                        sessionId_arg = sid\<rparr>]\<rparr>)"
    by (rule save_after_provider_resolved [OF assms(2,3)])
next
  fix sv' :: "('d, 'st) session_service"
  assume "sessionId (state sv') = Some sid"
  then show "save_after_create (Resolved ()) sid sv' =
      (Inr (), sv'\<lparr>state := (state sv')\<lparr>isStored := True\<rparr>\<rparr>)"
    by (simp add: save_after_create_resolved)
qed

text \<open>
  An instance in a development build: while the provider is pending the application
  changes to none and the provider is deregistered, while \<open>create\<close> is pending the
  session is cleared and restored under the same id. \<open>create\<close> is called without an
  application id and the restored session ends up stored.
\<close>

theorem save_guard_compares_ids_only_witness:
  "state (snd (save [AppChange None, SetSearchSessionInfoProvider None] (Resolved ())
                 [Clear, Restore ''S1''] (demo_service True))) =
     \<lparr>sessionId = Some ''S1'', isStored = True, isRestore = True, pendingSearches = []\<rparr> \<and>
   sessionsClient_calls
     (snd (save_after_provider ''S1'' demo_provider
        (fold perform [AppChange None, SetSearchSessionInfoProvider None]
           ((demo_service True)\<lparr>provider_calls := [GetName, GetUrlGeneratorData]\<rparr>)))) =
     [Create \<lparr>urlGeneratorId = ''G'', initialState = ''{a:1}'', restoreState = ''{a:2}'',
              name = ''N'', appId = None, sessionId_arg = ''S1''\<rparr>]"
proof -
  note guard = save_guard_compares_ids_only [OF demo_save_begin demo_provider_resolves, of True]
  let ?sv = "fold perform [AppChange None, SetSearchSessionInfoProvider None]
      ((demo_service True)\<lparr>provider_calls := [GetName, GetUrlGeneratorData]\<rparr>)"
  from guard have
    "state (snd (save [AppChange None, SetSearchSessionInfoProvider None] (Resolved ())
                   ([] @ [Clear, Restore ''S1'']) (demo_service True))) =
       \<lparr>sessionId = Some ''S1'', isStored = True, isRestore = True, pendingSearches = []\<rparr>"
    by blast
  moreover from guard have
    "save_after_provider ''S1'' demo_provider ?sv =
       (Inr (),
        ?sv\<lparr>sessionsClient_calls := sessionsClient_calls ?sv @
              [Create \<lparr>urlGeneratorId = ''G'', initialState = ''{a:1}'',
                       restoreState = ''{a:2}'', name = ''N'', appId = curApp ?sv,
                       sessionId_arg = ''S1''\<rparr>]\<rparr>)"
    by simp
  ultimately show ?thesis
    by (simp add: demo_service_fields app_change_def setSearchSessionInfoProvider_def truthy_def)
qed

section \<open>cancel and clear\<close>

lemma forEach_abort_fields:
  "state (snd (forEach_abort xs sv)) = state sv"
  "searchSessionInfoProvider (snd (forEach_abort xs sv)) = searchSessionInfoProvider sv"
  "sessionsClient_calls (snd (forEach_abort xs sv)) = sessionsClient_calls sv"
  by (induction xs arbitrary: sv; simp add: Let_def split: option.splits)+






lemma cancel_with_provider:
  "searchSessionInfoProvider (snd (cancel_with transition sv)) = searchSessionInfoProvider sv"
proof (cases "forEach_abort (pendingSearches (state sv)) sv")
  case (Pair r sv1)
  then have "searchSessionInfoProvider sv1 = searchSessionInfoProvider sv"
    using forEach_abort_fields(2) [of "pendingSearches (state sv)" sv] by simp
  with Pair show ?thesis
    by (simp add: cancel_with_def Let_def split: option.splits)
qed


lemma cancel_provider: "searchSessionInfoProvider (cancel sv) = searchSessionInfoProvider sv"
  by (simp add: cancel_def cancel_with_provider)

lemma cancel_nothing_pending:
  "pendingSearches (state sv) = [] \<Longrightarrow> state (cancel sv) = createSessionDefaultState"
  by (simp add: cancel_def cancel_with_def Let_def transitions_cancel_def)

lemma clear_fields:
  "state (clear sv) = createSessionDefaultState"
  "searchSessionInfoProvider (clear sv) = None"
  "curApp (clear sv) = curApp sv"
  "sessionsClient_calls (clear sv) = sessionsClient_calls sv"
  "aborts (clear sv) = aborts sv"
  by (simp_all add: clear_def setSearchSessionInfoProvider_def transitions_clear_def)








text \<open>
  C4 as stated fails for \<open>cancel\<close>: after \<open>cancel\<close> the session is gone and the provider
  is still registered.
\<close>

theorem cancel_keeps_provider_counterexample:
  "sessionId (state (cancel (demo_service False))) = None \<and>
   \<not> (searchSessionInfoProvider (cancel (demo_service False)) = None)"
  by (simp add: cancel_nothing_pending cancel_provider createSessionDefaultState_def
      demo_service_fields)

text \<open>
  C4, amended. After \<open>clear\<close> no session-info provider is registered; \<open>cancel\<close> leaves
  the registered provider as it is.
\<close>

theorem clear_releases_provider:
  "searchSessionInfoProvider (clear sv) = None \<and>
   searchSessionInfoProvider (cancel sv) = searchSessionInfoProvider sv"
  by (simp add: clear_fields cancel_provider)

theorem clear_releases_provider_witness:
  "searchSessionInfoProvider (clear (demo_service False)) = None \<and>
   searchSessionInfoProvider (cancel (demo_service False)) = Some demo_provider"
  using clear_releases_provider [of "demo_service False"]
  by (simp add: demo_service_fields)

section \<open>Application changes\<close>

lemma run_timeout_state: "state (run_timeout sv) = state sv"
  by (simp add: run_timeout_def split: list.splits)

lemma run_timeout_provider:
  "searchSessionInfoProvider (run_timeout sv) = searchSessionInfoProvider sv"
  by (simp add: run_timeout_def split: list.splits)

text \<open>
  C5 as stated fails in a development build: the application changes while session
  \<open>S1\<close> is open, and the session and its provider are still there after the event and
  after the scheduled callback has run.
\<close>

theorem app_change_dev_counterexample:
  "truthy (sessionId (state (demo_service True))) \<and>
   sessionId (state (app_change (Some ''dashboard'') (demo_service True))) = Some ''S1'' \<and>
   \<not> (sessionId (state (run_timeout (app_change (Some ''dashboard'') (demo_service True)))) = None) \<and>
   \<not> (searchSessionInfoProvider
        (run_timeout (app_change (Some ''dashboard'') (demo_service True))) = None)"
  by (simp add: run_timeout_state run_timeout_provider app_change_def demo_service_fields
      truthy_def)

text \<open>
  C5, amended. An application-change event that finds a session open is reported and
  handled according to the build. In a production build the message is written to the
  console and the session is cleared at once, which also releases the provider. In a
  development build a callback is scheduled 100 ms later that adds the message to the
  host's fatal errors; the session is not cleared, neither by the event nor by the
  callback. An event that finds no session open does nothing else. In every case the
  tracked application id becomes the one of the event.
\<close>

theorem app_change_reports_open_session:
  "curApp (app_change appName sv) = appName \<and>
   (truthy (sessionId (state sv)) \<and> \<not> dev sv \<longrightarrow>
      app_change appName sv =
        (clear sv)\<lparr>console_warn := console_warn sv @ [open_session_message (curApp sv)],
                   curApp := appName\<rparr> \<and>
      sessionId (state (app_change appName sv)) = None \<and>
      searchSessionInfoProvider (app_change appName sv) = None) \<and>
   (truthy (sessionId (state sv)) \<and> dev sv \<longrightarrow>
      app_change appName sv =
        sv\<lparr>timeouts := timeouts sv @ [(100, open_session_message (curApp sv))],
           curApp := appName\<rparr> \<and>
      state (run_timeout (app_change appName sv)) = state sv \<and>
      (timeouts sv = [] \<longrightarrow>
         fatalErrors (run_timeout (app_change appName sv)) =
           fatalErrors sv @ [open_session_message (curApp sv)])) \<and>
   (\<not> truthy (sessionId (state sv)) \<longrightarrow> app_change appName sv = sv\<lparr>curApp := appName\<rparr>)"
proof (intro conjI impI)
  show "curApp (app_change appName sv) = appName"
    by (simp add: app_change_def Let_def)
next
  assume "truthy (sessionId (state sv)) \<and> \<not> dev sv"
  then show prod: "app_change appName sv =
      (clear sv)\<lparr>console_warn := console_warn sv @ [open_session_message (curApp sv)],
                 curApp := appName\<rparr>"
    by (simp add: app_change_def Let_def clear_def setSearchSessionInfoProvider_def)
  show "sessionId (state (app_change appName sv)) = None"
    unfolding prod by (simp add: clear_fields createSessionDefaultState_def)
  show "searchSessionInfoProvider (app_change appName sv) = None"
    unfolding prod by (simp add: clear_fields)
next
  assume "truthy (sessionId (state sv)) \<and> dev sv"
  then show devel: "app_change appName sv =
      sv\<lparr>timeouts := timeouts sv @ [(100, open_session_message (curApp sv))],
         curApp := appName\<rparr>"
    by (simp add: app_change_def Let_def)
  show "state (run_timeout (app_change appName sv)) = state sv"
    unfolding devel by (simp add: run_timeout_state)
  assume "timeouts sv = []"
  then show "fatalErrors (run_timeout (app_change appName sv)) =
      fatalErrors sv @ [open_session_message (curApp sv)]"
    unfolding devel by (simp add: run_timeout_def)
next
  assume "\<not> truthy (sessionId (state sv))"
  then show "app_change appName sv = sv\<lparr>curApp := appName\<rparr>"
    by (simp add: app_change_def)
qed

theorem app_change_reports_open_session_witness:
  "sessionId (state (app_change (Some ''dashboard'') (demo_service False))) = None \<and>
   searchSessionInfoProvider (app_change (Some ''dashboard'') (demo_service False)) = None \<and>
   curApp (app_change (Some ''dashboard'') (demo_service False)) = Some ''dashboard'' \<and>
   state (run_timeout (app_change (Some ''dashboard'') (demo_service True))) =
     state (demo_service True) \<and>
   fatalErrors (run_timeout (app_change (Some ''dashboard'') (demo_service True))) =
     [open_session_message (Some ''discover'')] \<and>
   curApp (app_change (Some ''dashboard'') (demo_service True)) = Some ''dashboard'' \<and>
   app_change (Some ''discover'') (new_service False :: (nat, string) session_service) =
     (new_service False)\<lparr>curApp := Some ''discover''\<rparr>"
  using app_change_reports_open_session [of "Some ''dashboard''" "demo_service False"]
    app_change_reports_open_session [of "Some ''dashboard''" "demo_service True"]
    app_change_reports_open_session
      [of "Some ''discover''" "new_service False :: (nat, string) session_service"]
  by (simp add: demo_service_fields truthy_def new_service_def createSessionDefaultState_def
      clear_fields run_timeout_state run_timeout_def)

section \<open>Tracking searches\<close>





lemma dispatch_distinct:
  "distinct (pendingSearches s) \<Longrightarrow> distinct (pendingSearches (dispatch t s))"
  by (cases t)
    (simp_all add: transitions_start_def transitions_restore_def transitions_trackSearch_def
      transitions_unTrackSearch_def transitions_store_def transitions_cancel_def
      transitions_clear_def createSessionDefaultState_def distinct_removeAll)



section \<open>Deduplication of the session id stream\<close>

lemma distinctUntilChanged_from_Some:
  "distinctUntilChanged_from (Some k) vs = tl (remdups_adj (k # vs))"
  by (induction vs arbitrary: k) auto

lemma distinctUntilChanged_remdups_adj: "distinctUntilChanged vs = remdups_adj vs"
  by (cases vs) (simp_all add: distinctUntilChanged_def distinctUntilChanged_from_Some)

lemma remdups_adj_snoc:
  "remdups_adj (vs @ [v]) = remdups_adj vs @ (if vs \<noteq> [] \<and> last vs = v then [] else [v])"
  by (cases vs rule: rev_cases) (simp_all add: remdups_adj_append_two)

lemma state_stream_snoc:
  "state_stream s (ts @ [t]) = state_stream s ts @ [dispatch t (fold dispatch ts s)]"
  by (induction ts arbitrary: s) simp_all

lemma last_state_stream: "last (s # state_stream s ts) = fold dispatch ts s"
  by (induction ts arbitrary: s) simp_all

lemma getSession_stream_snoc:
  "getSession_stream s (ts @ [t]) =
     getSession_stream s ts @
       (if sessionId (dispatch t (fold dispatch ts s)) = sessionId (fold dispatch ts s) then []
        else [sessionId (dispatch t (fold dispatch ts s))])"
proof -
  have "last (map sessionId (s # state_stream s ts)) = sessionId (fold dispatch ts s)"
    by (simp only: last_map [OF list.distinct(2)] last_state_stream)
  moreover have "map sessionId (s # state_stream s (ts @ [t])) =
      map sessionId (s # state_stream s ts) @ [sessionId (dispatch t (fold dispatch ts s))]"
    by (simp add: state_stream_snoc)
  ultimately show ?thesis
    unfolding getSession_stream_def startWith_def distinctUntilChanged_remdups_adj
    by (simp only: remdups_adj_snoc) simp
qed

text \<open>
  C7. For every state \<open>s\<close> in which \<open>getSession$\<close> is subscribed to and every sequence of
  transitions dispatched afterwards, the subscriber never receives the same session id
  twice in a row. It first receives the current id; after that each transition makes it
  receive exactly one value, the new id, if the transition changes the session id, and
  nothing if it does not. In particular \<open>trackSearch\<close>, \<open>unTrackSearch\<close> and \<open>store\<close>
  never make it emit.
\<close>

theorem getSession_stream_emits_on_change:
  "distinct_adj (getSession_stream s ts) \<and>
   getSession_stream s [] = [sessionId s] \<and>
   getSession_stream s (ts @ [t]) =
     getSession_stream s ts @
       (if sessionId (dispatch t (fold dispatch ts s)) = sessionId (fold dispatch ts s) then []
        else [sessionId (dispatch t (fold dispatch ts s))]) \<and>
   getSession_stream s (ts @ [T_trackSearch d]) = getSession_stream s ts \<and>
   getSession_stream s (ts @ [T_unTrackSearch d]) = getSession_stream s ts \<and>
   getSession_stream s (ts @ [T_store]) = getSession_stream s ts"
proof (intro conjI)
  show "distinct_adj (getSession_stream s ts)"
    by (simp add: getSession_stream_def distinctUntilChanged_remdups_adj)
  show "getSession_stream s [] = [sessionId s]"
    by (simp add: getSession_stream_def distinctUntilChanged_def startWith_def)
  show "getSession_stream s (ts @ [t]) =
     getSession_stream s ts @
       (if sessionId (dispatch t (fold dispatch ts s)) = sessionId (fold dispatch ts s) then []
        else [sessionId (dispatch t (fold dispatch ts s))])"
    by (rule getSession_stream_snoc)
  show "getSession_stream s (ts @ [T_trackSearch d]) = getSession_stream s ts"
    by (simp add: getSession_stream_snoc transitions_trackSearch_def)
  show "getSession_stream s (ts @ [T_unTrackSearch d]) = getSession_stream s ts"
    by (simp add: getSession_stream_snoc transitions_unTrackSearch_def)
  show "getSession_stream s (ts @ [T_store]) = getSession_stream s ts"
    by (simp add: getSession_stream_snoc transitions_store_def)
qed

theorem getSession_stream_emits_on_change_witness:
  "getSession_stream (createSessionDefaultState :: nat search_session_state)
     [T_start ''S1'', T_trackSearch 1, T_trackSearch 2, T_store, T_unTrackSearch 1,
      T_clear, T_restore ''S1'', T_trackSearch 3, T_start ''S2''] =
     [None, Some ''S1'', None, Some ''S1'', Some ''S2''] \<and>
   distinct_adj [None, Some ''S1'', None, Some ''S1'', Some ''S2'']"
proof -
  let ?ts = "[T_start ''S1'', T_trackSearch 1, T_trackSearch 2, T_store, T_unTrackSearch 1,
      T_clear, T_restore ''S1'', T_trackSearch 3, T_start ''S2''] :: nat transition list"
  have v: "getSession_stream (createSessionDefaultState :: nat search_session_state) ?ts =
      [None, Some ''S1'', None, Some ''S1'', Some ''S2'']"
    by (simp add: getSession_stream_def distinctUntilChanged_def startWith_def
        createSessionDefaultState_def transitions_start_def transitions_restore_def
        transitions_trackSearch_def transitions_unTrackSearch_def transitions_store_def
        transitions_clear_def)
  from getSession_stream_emits_on_change
         [of "createSessionDefaultState :: nat search_session_state" ?ts]
  have "distinct_adj (getSession_stream (createSessionDefaultState :: nat search_session_state) ?ts)"
    by blast
  with v show ?thesis by simp
qed

end
